theory Spec2Isabelle
  imports Main "HOL-Library.AList"
begin

section \<open>Python text primitives\<close>

text \<open>
  Text is a \<^typ>\<open>string\<close>; the character classes below are those of Python on
  code points below 128 (ASCII), which is the range this development covers.
  \<^item> \<open>startswith s p\<close> is \<^verbatim>\<open>s.startswith(p)\<close>;
  \<^item> \<open>contains sub s\<close> is \<^verbatim>\<open>sub in s\<close>;
  \<^item> \<open>split_char sep s\<close> is \<^verbatim>\<open>s.split(sep)\<close> for a one-character separator;
  \<^item> \<open>split_str sep s\<close> is \<^verbatim>\<open>s.split(sep)\<close> for a longer separator
    (Python raises on an empty separator; no caller passes one);
  \<^item> \<open>py_lower\<close> is \<^verbatim>\<open>s.lower()\<close>, \<open>py_strip\<close> is \<^verbatim>\<open>s.strip()\<close>.
\<close>

definition startswith :: "string \<Rightarrow> string \<Rightarrow> bool" where
  "startswith s p = (take (length p) s = p)"

fun contains :: "string \<Rightarrow> string \<Rightarrow> bool" where
  "contains sub [] = (sub = [])"
| "contains sub (c # cs) = (startswith (c # cs) sub \<or> contains sub cs)"

fun split_char :: "char \<Rightarrow> string \<Rightarrow> string list" where
  "split_char sep [] = [[]]"
| "split_char sep (c # cs) =
     (if c = sep then [] # split_char sep cs
      else (case split_char sep cs of [] \<Rightarrow> [[c]] | p # ps \<Rightarrow> (c # p) # ps))"

fun split_str :: "string \<Rightarrow> string \<Rightarrow> string list" where
  "split_str sep [] = [[]]"
| "split_str sep (c # cs) =
     (if sep \<noteq> [] \<and> startswith (c # cs) sep
      then [] # split_str sep (drop (length sep - 1) cs)
      else (case split_str sep cs of [] \<Rightarrow> [[c]] | p # ps \<Rightarrow> (c # p) # ps))"

definition lower_char :: "char \<Rightarrow> char" where
  "lower_char c =
     (case map_of (zip ''ABCDEFGHIJKLMNOPQRSTUVWXYZ'' ''abcdefghijklmnopqrstuvwxyz'') c of
        Some d \<Rightarrow> d
      | None \<Rightarrow> c)"

definition py_lower :: "string \<Rightarrow> string" where
  "py_lower s = map lower_char s"

text \<open>\<^verbatim>\<open>str.isspace\<close> below 128: tab, LF, VT, FF, CR, FS, GS, RS, US and space.\<close>

definition is_space :: "char \<Rightarrow> bool" where
  "is_space c = (c \<in> set [CHR 0x09, CHR 0x0A, CHR 0x0B, CHR 0x0C, CHR 0x0D,
                            CHR 0x1C, CHR 0x1D, CHR 0x1E, CHR 0x1F, CHR '' ''])"

definition py_strip :: "string \<Rightarrow> string" where
  "py_strip s = rev (dropWhile is_space (rev (dropWhile is_space s)))"

definition is_digit :: "char \<Rightarrow> bool" where
  "is_digit c = (c \<in> set ''0123456789'')"

definition digit_val :: "char \<Rightarrow> nat" where
  "digit_val c = of_char c - 48"

text \<open>
  \<^verbatim>\<open>int(s)\<close> on ASCII text: surrounding C whitespace is dropped, one sign is allowed,
  then decimal digits with single underscores between digits. \<open>None\<close> is
  \<^verbatim>\<open>ValueError\<close>.
\<close>

definition is_c_space :: "char \<Rightarrow> bool" where
  "is_c_space c = (c \<in> set [CHR 0x09, CHR 0x0A, CHR 0x0B, CHR 0x0C, CHR 0x0D, CHR '' ''])"

fun parse_digits :: "nat \<Rightarrow> string \<Rightarrow> nat option" where
  "parse_digits acc [] = Some acc"
| "parse_digits acc [c] = (if is_digit c then Some (10 * acc + digit_val c) else None)"
| "parse_digits acc (c # d # cs) =
     (if is_digit c then parse_digits (10 * acc + digit_val c) (d # cs)
      else if c = CHR ''_'' \<and> is_digit d then parse_digits acc (d # cs)
      else None)"

definition py_nat :: "string \<Rightarrow> nat option" where
  "py_nat s = (case s of [] \<Rightarrow> None
               | c # cs \<Rightarrow> if is_digit c then parse_digits (digit_val c) cs else None)"

definition py_int :: "string \<Rightarrow> int option" where
  "py_int s =
     (let t = rev (dropWhile is_c_space (rev (dropWhile is_c_space s)))
      in case t of
           [] \<Rightarrow> None
         | c # cs \<Rightarrow>
             if c = CHR ''+'' then map_option int (py_nat cs)
             else if c = CHR ''-'' then map_option (\<lambda>n. - int n) (py_nat cs)
             else map_option int (py_nat t))"

section \<open>dimakids: the episode selection grammar\<close>

text \<open>
  \<^verbatim>\<open>parse_episode_selection(user_input, total_episodes)\<close>. The model returns the
  list the function returns together with the tokens for which the warning line is
  printed, in the order printed.

  \<open>parse_part\<close> is the body of the \<^verbatim>\<open>try\<close>: \<open>None\<close> when it raises
  \<^verbatim>\<open>ValueError\<close> (a failed \<^verbatim>\<open>int\<close>, or an unpacking of other than two
  values), otherwise the numbers added to the set. Nothing is added before a raise: both
  conversions of a range happen before its loop starts.
\<close>

definition in_range :: "int \<Rightarrow> int \<Rightarrow> bool" where
  "in_range total_episodes i = (1 \<le> i \<and> i \<le> total_episodes)"

definition parse_part :: "int \<Rightarrow> string \<Rightarrow> int list option" where
  "parse_part total_episodes part =
     (if CHR ''-'' \<in> set part then
        (case map py_int (split_char CHR ''-'' part) of
           [Some start, Some stop] \<Rightarrow> Some (filter (in_range total_episodes) [start..stop])
         | _ \<Rightarrow> None)
      else
        (case py_int part of
           Some num \<Rightarrow> Some (if in_range total_episodes num then [num] else [])
         | None \<Rightarrow> None))"

definition select_part :: "int \<Rightarrow> string \<Rightarrow> int set \<times> string list \<Rightarrow> int set \<times> string list" where
  "select_part total_episodes part st =
     (case parse_part total_episodes part of
        Some xs \<Rightarrow> (fst st \<union> set xs, snd st)
      | None \<Rightarrow> (fst st, snd st @ [part]))"

definition tokens :: "string \<Rightarrow> string list" where
  "tokens user_input = split_char CHR '','' (filter (\<lambda>c. c \<noteq> CHR '' '') user_input)"

definition parse_episode_selection :: "string \<Rightarrow> int \<Rightarrow> int list \<times> string list" where
  "parse_episode_selection user_input total_episodes =
     (if py_lower user_input = ''all'' then ([1..total_episodes], [])
      else
        (let st = fold (select_part total_episodes) (tokens user_input) ({}, [])
         in (sorted_list_of_set (fst st), snd st)))"



section \<open>dimakids: the obfuscation decoder\<close>








text \<open>
  A parsed page is the list of its \<^verbatim>\<open>script\<close> elements in document order, each
  given by its \<^verbatim>\<open>.string\<close> (\<open>None\<close> when the element has none). \<open>decode_script\<close>
  is the body of the loop over the scripts, \<open>scan_scripts\<close> the loop, which returns at
  the first script that yields a link. The \<^verbatim>\<open>try\<close> around the function turns any
  exception into the result \<open>None\<close>; the operations used raise none.
\<close>

type_synonym soup = "string option list"






section \<open>dimakids: the segmented-stream transport\<close>

text \<open>
  \<^verbatim>\<open>download_with_custom_progress(url, filepath, filename_for_display, referer_url)\<close>.

  The disk is a map from paths to the contents of plain files. What the world does
  during one call is a \<open>transport\<close>: the answer to the playlist request, the answer to
  the \<open>i\<close>-th segment request, whether \<^verbatim>\<open>open\<close> and \<^verbatim>\<open>shutil.move\<close> succeed,
  and the library function \<^verbatim>\<open>urljoin\<close>. \<open>HttpError\<close> stands for an exception from
  \<^verbatim>\<open>session.get\<close> or from \<^verbatim>\<open>raise_for_status\<close>. Removing a plain file in the handler
  is taken to succeed. The progress line and the display name are output only.

  The result is the value returned (\<open>Inr\<close>) or the exception re-raised by the handler
  (\<open>Inl\<close>), with the disk as the call leaves it.
\<close>

datatype http_result = HttpError | HttpOk string

type_synonym disk = "string \<rightharpoonup> string"

record transport =
  get_playlist :: "string \<Rightarrow> string \<Rightarrow> http_result"
  get_segment :: "nat \<Rightarrow> string \<Rightarrow> string \<Rightarrow> http_result"
  urljoin :: "string \<Rightarrow> string \<Rightarrow> string"
  open_ok :: bool
  move_ok :: bool

datatype download_error =
    PlaylistFetchFailed
  | NoSegments
  | OpenFailed
  | SegmentFetchFailed nat
  | MoveFailed

text \<open>
  The handler: \<^verbatim>\<open>if os.path.exists(filepath): os.remove(filepath)\<close>, then the same for
  \<^verbatim>\<open>temp_filepath\<close> when it has been assigned.
\<close>

definition cleanup :: "string \<Rightarrow> string option \<Rightarrow> disk \<Rightarrow> disk" where
  "cleanup filepath temp_filepath fs =
     (case temp_filepath of
        None \<Rightarrow> fs(filepath := None)
      | Some t \<Rightarrow> (fs(filepath := None))(t := None))"

text \<open>
  The segment loop: each body is appended to the open temporary file; the first failed
  request stops the loop with its index.
\<close>

fun fetch_segments ::
  "transport \<Rightarrow> string \<Rightarrow> string \<Rightarrow> nat \<Rightarrow> string list \<Rightarrow> disk \<Rightarrow> nat option \<times> disk" where
  "fetch_segments w referer_url temp_filepath i [] fs = (None, fs)"
| "fetch_segments w referer_url temp_filepath i (segment_url # rest) fs =
     (case get_segment w i referer_url segment_url of
        HttpError \<Rightarrow> (Some i, fs)
      | HttpOk segment_data \<Rightarrow>
          fetch_segments w referer_url temp_filepath (Suc i) rest
            (fs(temp_filepath \<mapsto> (case fs temp_filepath of None \<Rightarrow> segment_data
                                       | Some written \<Rightarrow> written @ segment_data))))"

definition segment_urls_of :: "transport \<Rightarrow> string \<Rightarrow> string \<Rightarrow> string list" where
  "segment_urls_of w url text =
     map (\<lambda>line. urljoin w url (py_strip line))
       (filter (\<lambda>line. line \<noteq> [] \<and> \<not> startswith line ''#'') (split_char CHR 0x0A text))"

definition download_with_custom_progress ::
  "transport \<Rightarrow> string \<Rightarrow> string \<Rightarrow> string \<Rightarrow> string \<Rightarrow> disk \<Rightarrow> (download_error + bool) \<times> disk" where
  "download_with_custom_progress w url filepath filename_for_display referer_url fs =
     (case get_playlist w referer_url url of
        HttpError \<Rightarrow> (Inl PlaylistFetchFailed, cleanup filepath None fs)
      | HttpOk text \<Rightarrow>
          (let segment_urls = segment_urls_of w url text in
           if segment_urls = [] then (Inl NoSegments, cleanup filepath None fs)
           else
             (let temp_filepath = filepath @ ''.tmp'' in
              if \<not> open_ok w then (Inl OpenFailed, cleanup filepath (Some temp_filepath) fs)
              else
                (case fetch_segments w referer_url temp_filepath 0 segment_urls
                        (fs(temp_filepath \<mapsto> [])) of
                   (Some i, fs1) \<Rightarrow>
                     (Inl (SegmentFetchFailed i), cleanup filepath (Some temp_filepath) fs1)
                 | (None, fs1) \<Rightarrow>
                     if \<not> move_ok w
                     then (Inl MoveFailed, cleanup filepath (Some temp_filepath) fs1)
                     else (Inr True,
                           (fs1(filepath := fs1 temp_filepath))(temp_filepath := None))))))"

section \<open>dimakids: the retry loop of the downloader\<close>

text \<open>
  The \<^verbatim>\<open>while\<close> loop of \<^verbatim>\<open>process_page\<close> for one entry of the download list.
  \<open>filepath\<close> is the path computed from the entry, the same at every attempt. The
  world of one episode gives, for the attempt numbered \<open>k\<close>, the page that
  \<^verbatim>\<open>get_soup(item['page_link'])\<close> returns (\<open>None\<close> when the fetch fails) and the
  transport during that attempt's download call.

  \<open>retry_loop\<close> is entered with \<open>download_successful = False\<close> and returns the flag, the
  final value of \<open>attempt\<close>, the disk, and the URLs handed to the transport, in order.
  An exception from the download call is caught by the loop's handler; the
  \<^verbatim>\<open>break\<close> leaves the loop with the flag still false.
\<close>

record episode_world =
  page_at :: "nat \<Rightarrow> soup option"
  transport_at :: "nat \<Rightarrow> transport"





text \<open>
  One entry of the download list: the loop starts with \<open>attempt = 0\<close> and the link
  resolved earlier; the entry is then counted as downloaded or failed.
\<close>



text \<open>
  Simulated worlds for evaluating the downloader. The playlist names two segments;
  \<open>flaky_transport k\<close> answers every request except the segment request numbered \<open>k\<close>
  (so \<open>flaky_transport 2\<close> never fails); \<open>example_urljoin\<close> is \<^verbatim>\<open>urljoin\<close> for a plain
  relative file name, which replaces the last path segment of the base.
  \<open>third_time_lucky\<close> fails the first two attempts and serves the third, with the page
  re-resolving each time; \<open>never_refreshes\<close> fails the first attempt and then serves no
  page; \<open>always_failing\<close> fails every attempt while the page keeps re-resolving.
\<close>

definition example_playlist :: string where
  "example_playlist =
     ''#EXTM3U'' @ [CHR 0x0A] @ ''seg0.ts'' @ [CHR 0x0A] @ ''seg1.ts'' @ [CHR 0x0A]"

definition example_urljoin :: "string \<Rightarrow> string \<Rightarrow> string" where
  "example_urljoin base rel = rev (dropWhile (\<lambda>c. c \<noteq> CHR ''/'') (rev base)) @ rel"

definition flaky_transport :: "nat \<Rightarrow> transport" where
  "flaky_transport k =
     \<lparr> get_playlist = (\<lambda>referer_url url. HttpOk example_playlist),
       get_segment = (\<lambda>i referer_url url. if i = k then HttpError else HttpOk (''['' @ url @ '']'')),
       urljoin = example_urljoin,
       open_ok = True,
       move_ok = True \<rparr>"


definition never_refreshes :: episode_world where
  "never_refreshes =
     \<lparr> page_at = (\<lambda>k. None),
       transport_at = (\<lambda>k. flaky_transport 1) \<rparr>"


section \<open>stardima: brute-force episode enumeration\<close>


definition digit_char :: "nat \<Rightarrow> char" where
  "digit_char d = ''0123456789'' ! d"

fun show_nat :: "nat \<Rightarrow> string" where
  "show_nat n = (if n < 10 then [digit_char n] else show_nat (n div 10) @ [digit_char (n mod 10)])"









section \<open>stardima: the world outside the resolver\<close>

text \<open>
  What the resolver gets from outside, as oracles:
  \<^item> \<open>fetch_iframe\<close>: the wrapper's iframe page, given by what the scans of
    \<^verbatim>\<open>resolve_hyperwatching\<close> find in it: the CSRF token (if the pattern matches) and,
    if the \<^verbatim>\<open>servers: [...]\<close> block matches, the ids and the names found in it by
    \<^verbatim>\<open>re.findall\<close>; or an exception from the request;
  \<^item> \<open>post_link\<close>: the answer to the link request sent for the \<open>i\<close>-th server, given
    by the truth value of its \<^verbatim>\<open>success\<close> field and its \<^verbatim>\<open>watch_url\<close> (empty when
    missing); \<open>LinkRaised\<close> is any exception in the loop body;
  \<^item> \<open>ajax\<close>: the answer of the legacy site's player endpoint for an episode and a
    server slot, given by its \<^verbatim>\<open>embed_url\<close> field (empty when missing);
  \<^item> \<open>b64decode\<close>: \<^verbatim>\<open>base64.b64decode(s).decode('utf-8')\<close>, \<open>None\<close> when it raises;
  \<^item> \<open>episode_api\<close>: the new site's episode endpoint, given by the watch URL and the
    printed season and episode number; \<open>EpisodeRaised\<close> is any exception in the body,
    \<open>EpisodeNot200\<close> another status code;
  \<^item> \<open>episode_key\<close>: the label computed by \<^verbatim>\<open>parse_episode_key\<close>, on which nothing
    below depends.
\<close>

datatype iframe_page = IframeRaised | IframePage "string option" "(string list \<times> string list) option"

datatype link_response = LinkRaised | LinkData bool string

datatype ajax_response = AjaxRaised | AjaxJson string

datatype episode_response = EpisodeRaised | EpisodeNot200 | EpisodeData string string string

record site =
  fetch_iframe :: "string \<Rightarrow> iframe_page"
  post_link :: "nat \<Rightarrow> string \<Rightarrow> string \<Rightarrow> string \<Rightarrow> link_response"
  ajax :: "int \<Rightarrow> nat \<Rightarrow> ajax_response"
  b64decode :: "string \<Rightarrow> string option"
  episode_api :: "int \<Rightarrow> episode_response"
  episode_key :: "int \<Rightarrow> string \<Rightarrow> string"



definition wrapper_marker :: string where
  "wrapper_marker = ''hyperwatching.com/iframe/''"

section \<open>stardima: the wrapper unwrapper\<close>

text \<open>
  \<^verbatim>\<open>resolve_hyperwatching(iframe_url)\<close>. A dictionary is an association list in
  insertion order. \<open>collect_links\<close> is the loop over \<^verbatim>\<open>zip(server_ids, server_names)\<close>;
  \<open>fallback\<close> is the dictionary returned when nothing resolved, by the early return, or
  by the outer handler.
\<close>

definition video_id_of :: "string \<Rightarrow> string" where
  "video_id_of iframe_url =
     hd (split_char CHR ''?'' (hd (split_char CHR ''/'' (last (split_str ''/iframe/'' iframe_url)))))"

definition link_api_url :: "string \<Rightarrow> string" where
  "link_api_url iframe_url =
     ''https://hyperwatching.com/api/videos/'' @ video_id_of iframe_url @ ''/link''"

definition fallback :: "string \<Rightarrow> (string \<times> string) list" where
  "fallback iframe_url = [(''hyperwatching'', iframe_url)]"

fun collect_links ::
  "site \<Rightarrow> string \<Rightarrow> string \<Rightarrow> nat \<Rightarrow> (string \<times> string) list \<Rightarrow> (string \<times> string) list
     \<Rightarrow> (string \<times> string) list" where
  "collect_links net api_url csrf_token i [] results = results"
| "collect_links net api_url csrf_token i ((sid, sname) # rest) results =
     (case post_link net i api_url csrf_token sid of
        LinkRaised \<Rightarrow> collect_links net api_url csrf_token (Suc i) rest results
      | LinkData success watch_url \<Rightarrow>
          if success \<and> watch_url \<noteq> []
          then collect_links net api_url csrf_token (Suc i) rest
                 (AList.update (py_lower sname) watch_url results)
          else collect_links net api_url csrf_token (Suc i) rest results)"

definition resolve_hyperwatching :: "site \<Rightarrow> string \<Rightarrow> (string \<times> string) list" where
  "resolve_hyperwatching net iframe_url =
     (case fetch_iframe net iframe_url of
        IframeRaised \<Rightarrow> fallback iframe_url
      | IframePage csrf_match servers_match \<Rightarrow>
          (let csrf_token = (case csrf_match of Some t \<Rightarrow> t | None \<Rightarrow> [])
           in case servers_match of
                None \<Rightarrow> fallback iframe_url
              | Some (server_ids, server_names) \<Rightarrow>
                  (let results = collect_links net (link_api_url iframe_url) csrf_token 0
                                   (zip server_ids server_names) []
                   in if results \<noteq> [] then results else fallback iframe_url)))"


section \<open>stardima: legacy-catalog resolution\<close>

text \<open>
  \<^verbatim>\<open>get_video_urls(ep_id)\<close>. \<open>resolve_slot\<close> is the body of the loop for one server
  slot: the entry appended to \<^verbatim>\<open>servers\<close> and, when the slot holds a wrapper URL,
  the new value of \<^verbatim>\<open>hyperwatching_url\<close>. \<open>slot_step\<close> threads both through the loop
  over \<^verbatim>\<open>range(1, 6)\<close>.
\<close>

definition resolve_slot :: "site \<Rightarrow> int \<Rightarrow> nat \<Rightarrow> string option \<times> string option" where
  "resolve_slot net ep_id server_num =
     (case ajax net ep_id server_num of
        AjaxRaised \<Rightarrow> (None, None)
      | AjaxJson embed_b64 \<Rightarrow>
          if embed_b64 \<noteq> [] then
            (case b64decode net embed_b64 of
               None \<Rightarrow> (None, None)
             | Some decoded \<Rightarrow>
                 (let actual_url = (if contains ''url='' decoded
                                    then last (split_str ''url='' decoded) else decoded)
                  in if contains wrapper_marker actual_url then (None, Some actual_url)
                     else (Some actual_url, None)))
          else (None, None))"

definition slot_step ::
  "site \<Rightarrow> int \<Rightarrow> nat \<Rightarrow> string option list \<times> string option \<Rightarrow> string option list \<times> string option" where
  "slot_step net ep_id server_num st =
     (case resolve_slot net ep_id server_num of
        (entry, Some wrapper_url) \<Rightarrow> (fst st @ [entry], Some wrapper_url)
      | (entry, None) \<Rightarrow> (fst st @ [entry], snd st))"

text \<open>
  \<open>or_else\<close> is Python's \<^verbatim>\<open>a or b\<close> on two results of \<^verbatim>\<open>dict.get\<close>; \<open>remap\<close> is the list
  built from the unwrapper's dictionary.
\<close>

definition or_else :: "string option \<Rightarrow> string option \<Rightarrow> string option" where
  "or_else a b = (case a of None \<Rightarrow> b | Some u \<Rightarrow> if u \<noteq> [] then Some u else b)"

definition remap :: "(string \<times> string) list \<Rightarrow> string option list" where
  "remap resolved =
     [map_of resolved ''uqload'',
      or_else (map_of resolved ''earnvids'') (map_of resolved ''streamhg''),
      map_of resolved ''darkibox'',
      map_of resolved ''goodstream'',
      map_of resolved ''hyperwatching'']"

definition get_video_urls :: "site \<Rightarrow> int \<Rightarrow> string option list \<times> bool" where
  "get_video_urls net ep_id =
     (case fold (slot_step net ep_id) [1..<6] ([], None) of
        (servers, hyperwatching_url) \<Rightarrow>
          (case hyperwatching_url of
             None \<Rightarrow> (servers, False)
           | Some wrapper_url \<Rightarrow>
               if wrapper_url \<noteq> [] \<and> list_all (\<lambda>s. s = None) servers
               then (remap (resolve_hyperwatching net wrapper_url), True)
               else (servers, False)))"





section \<open>stardima: new-site resolution\<close>


section \<open>stardima: a simulated site\<close>

text \<open>
  For evaluating the resolver. The wrapper page lists three servers, of which only the
  first resolves. On the legacy site, episode 1 has a direct link in slot 1 and a
  wrapper link in slot 2; episode 2 has only a wrapper link, in slot 3; for episode 3
  the wrapper page cannot be fetched. \<open>b64_sample\<close> agrees with
  \<^verbatim>\<open>base64.b64decode\<close> on the three strings it knows. On the new site, episode 7 has a
  direct watch URL and episode 8 a wrapper URL.
\<close>

definition b64_sample :: "string \<Rightarrow> string option" where
  "b64_sample s =
     (if s = ''aHR0cHM6Ly92dWRlby5leGFtcGxlL2VtYmVkLTEuaHRtbA==''
      then Some ''https://vudeo.example/embed-1.html''
      else if s = ''aHR0cHM6Ly9zdHJlbWEuZXhhbXBsZS8/dXJsPWh0dHBzOi8vaHlwZXJ3YXRjaGluZy5jb20vaWZyYW1lL2FiYzEyMw==''
      then Some ''https://strema.example/?url=https://hyperwatching.com/iframe/abc123''
      else if s = ''aHR0cHM6Ly9oeXBlcndhdGNoaW5nLmNvbS9pZnJhbWUvYWJjMTIzP3g9MQ==''
      then Some ''https://hyperwatching.com/iframe/abc123?x=1''
      else None)"

definition example_site :: site where
  "example_site =
     \<lparr> fetch_iframe = (\<lambda>u. if u = ''https://hyperwatching.com/iframe/abc123?x=1'' then IframeRaised
                           else IframePage (Some ''tok'')
                                  (Some ([''11'', ''12'', ''13''], [''Uqload'', ''EarnVids'', ''Darkibox'']))),
       post_link = (\<lambda>i api_url csrf_token sid.
                      if sid = ''11'' then LinkData True ''https://uqload.example/embed-9.html''
                      else if sid = ''12'' then LinkRaised
                      else LinkData False []),
       ajax = (\<lambda>ep_id server_num.
                 if ep_id = 1 \<and> server_num = 1
                 then AjaxJson ''aHR0cHM6Ly92dWRlby5leGFtcGxlL2VtYmVkLTEuaHRtbA==''
                 else if (ep_id = 1 \<and> server_num = 2) \<or> (ep_id = 2 \<and> server_num = 3)
                 then AjaxJson ''aHR0cHM6Ly9zdHJlbWEuZXhhbXBsZS8/dXJsPWh0dHBzOi8vaHlwZXJ3YXRjaGluZy5jb20vaWZyYW1lL2FiYzEyMw==''
                 else if ep_id = 3 \<and> server_num = 5
                 then AjaxJson ''aHR0cHM6Ly9oeXBlcndhdGNoaW5nLmNvbS9pZnJhbWUvYWJjMTIzP3g9MQ==''
                 else if server_num = 4 then AjaxJson [] else AjaxRaised),
       b64decode = b64_sample,
       episode_api = (\<lambda>ep_id. if ep_id = 7 then EpisodeData ''https://cdn.example/v7.mp4'' ''1'' ''7''
                              else if ep_id = 8
                              then EpisodeData ''https://hyperwatching.com/iframe/abc123'' ''1'' ''8''
                              else EpisodeNot200),
       episode_key = (\<lambda>ep_id slug. ''E'' @ slug) \<rparr>"

section \<open>stardima: downloading a resolved episode\<close>

text \<open>
  \<^verbatim>\<open>unwrap_video_url\<close>: the regular expression \<^verbatim>\<open>[?&]id=([^&]+)\<close> is searched from the
  left; the group is the longest run of characters other than \<^verbatim>\<open>&\<close> after the first
  \<^verbatim>\<open>?id=\<close> or \<^verbatim>\<open>&id=\<close> that is followed by at least one such character.
  \<^verbatim>\<open>urllib.parse.unquote\<close> is a parameter.
\<close>

fun search_id :: "string \<Rightarrow> string option" where
  "search_id [] = None"
| "search_id (c # cs) =
     (if (c = CHR ''?'' \<or> c = CHR ''&'') \<and> startswith cs ''id='' \<and>
         takeWhile (\<lambda>d. d \<noteq> CHR ''&'') (drop 3 cs) \<noteq> []
      then Some (takeWhile (\<lambda>d. d \<noteq> CHR ''&'') (drop 3 cs))
      else search_id cs)"

definition unwrap_video_url :: "(string \<Rightarrow> string) \<Rightarrow> string \<Rightarrow> string" where
  "unwrap_video_url unquote url =
     (if contains ''strema.top/embed'' url \<and> contains ''id='' url then
        (case search_id url of Some g \<Rightarrow> unquote g | None \<Rightarrow> url)
      else url)"

text \<open>
  The world of \<^verbatim>\<open>download_episode\<close>: whether the \<open>i\<close>-th call of the media extractor,
  on a given URL, returns without raising; the percent-decoder; and whether the output
  directory can be created. File names play no part in the order of the attempts and
  are left inside the extractor.
\<close>

record media =
  ydl_download :: "nat \<Rightarrow> string \<Rightarrow> bool"
  unquote :: "string \<Rightarrow> string"
  makedirs_ok :: bool

text \<open>
  The servers of an episode are a dictionary, kept here in insertion order. The
  preference dictionary \<^verbatim>\<open>{s.lower(): i for i, s in enumerate(preferred_servers)}\<close> keeps
  the last index of a name that occurs twice; a name that is not in it sorts with
  key 999. \<^verbatim>\<open>list.sort\<close> is stable, as is \<^const>\<open>sort_key\<close>.
\<close>

definition truthy_urls :: "(string \<times> string option) list \<Rightarrow> (string \<times> string) list" where
  "truthy_urls servers =
     List.map_filter
       (\<lambda>(name, url). case url of None \<Rightarrow> None
                       | Some u \<Rightarrow> if u = [] then None else Some (name, u))
       servers"

definition apply_skip ::
  "string list option \<Rightarrow> (string \<times> string) list \<Rightarrow> (string \<times> string) list" where
  "apply_skip skip_servers valid =
     (case skip_servers of
        None \<Rightarrow> valid
      | Some skip \<Rightarrow>
          if skip = [] then valid
          else filter (\<lambda>(name, url). py_lower name \<notin> set (map py_lower skip)) valid)"

definition pref_order :: "string list \<Rightarrow> (string \<rightharpoonup> nat)" where
  "pref_order preferred =
     fold (\<lambda>(i, s) m. m(py_lower s \<mapsto> i)) (enumerate 0 preferred) Map.empty"

definition pref_key :: "string list \<Rightarrow> string \<times> string \<Rightarrow> nat" where
  "pref_key preferred x =
     (case pref_order preferred (py_lower (fst x)) of Some i \<Rightarrow> i | None \<Rightarrow> 999)"

definition apply_preference ::
  "string list option \<Rightarrow> (string \<times> string) list \<Rightarrow> (string \<times> string) list" where
  "apply_preference preferred_servers valid =
     (case preferred_servers of
        None \<Rightarrow> valid
      | Some preferred \<Rightarrow>
          if preferred = [] then valid else sort_key (pref_key preferred) valid)"

definition valid_urls ::
  "(string \<times> string option) list \<Rightarrow> string list option \<Rightarrow> string list option
     \<Rightarrow> (string \<times> string) list" where
  "valid_urls servers preferred_servers skip_servers =
     apply_preference preferred_servers (apply_skip skip_servers (truthy_urls servers))"

text \<open>
  The loop over the candidates returns at the first call of the extractor that does not
  raise. The result carries the names of the servers that were tried, in order.
\<close>

fun try_servers :: "media \<Rightarrow> nat \<Rightarrow> (string \<times> string) list \<Rightarrow> bool \<times> string list" where
  "try_servers env i [] = (False, [])"
| "try_servers env i ((server_name, url) # rest) =
     (if ydl_download env i (unwrap_video_url (unquote env) url) then (True, [server_name])
      else (case try_servers env (Suc i) rest of
              (ok, tried) \<Rightarrow> (ok, server_name # tried)))"

text \<open>
  \<^verbatim>\<open>download_episode\<close>: \<open>None\<close> when \<^verbatim>\<open>os.makedirs\<close> raises, which the function does
  not catch.
\<close>

definition download_episode ::
  "media \<Rightarrow> (string \<times> string option) list \<Rightarrow> string list option \<Rightarrow> string list option
     \<Rightarrow> (bool \<times> string list) option" where
  "download_episode env servers preferred_servers skip_servers =
     (if valid_urls servers preferred_servers skip_servers = [] then Some (False, [])
      else if \<not> makedirs_ok env then None
      else Some (try_servers env 0 (valid_urls servers preferred_servers skip_servers)))"

text \<open>
  The claimed order of the candidates: those named in the preferred list, in the order
  of that list, then the others in discovery order.
\<close>

definition preferred_first ::
  "string list \<Rightarrow> (string \<times> string) list \<Rightarrow> (string \<times> string) list" where
  "preferred_first preferred valid =
     concat (map (\<lambda>p. filter (\<lambda>x. py_lower (fst x) = py_lower p) valid) preferred) @
     filter (\<lambda>x. py_lower (fst x) \<notin> set (map py_lower preferred)) valid"

text \<open>
  For evaluating the downloader: an extractor that always raises, so that every
  candidate is tried; and a preferred list of a thousand numbered names followed by
  \<open>vk\<close>.
\<close>

definition no_server_works :: media where
  "no_server_works =
     \<lparr> ydl_download = (\<lambda>i url. False), unquote = (\<lambda>s. s), makedirs_ok = True \<rparr>"

definition long_preference :: "string list" where
  "long_preference = map show_nat [0..<1000] @ [''vk'']"

definition two_servers :: "(string \<times> string option) list" where
  "two_servers =
     [(''vk'', Some ''https://vk.example/video9''),
      (''vudeo'', Some ''https://vudeo.example/embed-1.html'')]"

section \<open>Facts about the selection grammar\<close>








lemma parse_episode_selection_all: "parse_episode_selection ''all'' 6 = ([1, 2, 3, 4, 5, 6], [])"
  by code_simp

lemma parse_episode_selection_abc: "parse_episode_selection ''abc'' 6 = ([], [''abc''])"
  by code_simp

section \<open>Facts about the obfuscation decoder\<close>



















section \<open>Facts about the segmented-stream transport\<close>



lemma fetch_segments_failed:
  "fetch_segments w r t i segs fs = (Some k, fs') \<Longrightarrow>
   i \<le> k \<and> k < i + length segs \<and> get_segment w k r (segs ! (k - i)) = HttpError"
proof (induction segs arbitrary: i fs)
  case Nil
  then show ?case by simp
next
  case (Cons u us)
  show ?case
  proof (cases "get_segment w i r u")
    case HttpError
    with Cons.prems show ?thesis by simp
  next
    case (HttpOk d)
    let ?fs = "fs(t \<mapsto> (case fs t of None \<Rightarrow> d | Some c \<Rightarrow> c @ d))"
    from Cons.prems HttpOk have "fetch_segments w r t (Suc i) us ?fs = (Some k, fs')" by simp
    from Cons.IH [OF this]
    have h: "Suc i \<le> k \<and> k < Suc i + length us \<and> get_segment w k r (us ! (k - Suc i)) = HttpError" .
    then have "k - i = Suc (k - Suc i)" by arith
    then have "(u # us) ! (k - i) = us ! (k - Suc i)" by simp
    with h show ?thesis by auto
  qed
qed

lemma tmp_neq: "filepath @ ''.tmp'' \<noteq> filepath"
  by simp




text \<open>
  C10. When the attempt raises, no file is left at the final path, whatever was there
  before the attempt began, and the temporary file is removed as well whenever the
  attempt got as far as naming it.
\<close>

theorem failed_attempt_removes_final_file:
  assumes "download_with_custom_progress w url filepath name referer fs = (Inl e, fs')"
  shows "fs' filepath = None \<and>
    (e \<noteq> PlaylistFetchFailed \<and> e \<noteq> NoSegments \<longrightarrow> fs' (filepath @ ''.tmp'') = None)"
proof (cases "get_playlist w referer url")
  case HttpError
  with assms show ?thesis
    by (auto simp: download_with_custom_progress_def cleanup_def)
next
  case (HttpOk pl)
  let ?segs = "segment_urls_of w url pl"
  let ?t = "filepath @ ''.tmp''"
  obtain k fs1 where f: "fetch_segments w referer ?t 0 ?segs (fs(?t \<mapsto> [])) = (k, fs1)"
    by (cases "fetch_segments w referer ?t 0 ?segs (fs(?t \<mapsto> []))") auto
  from assms HttpOk f show ?thesis
    by (auto simp: download_with_custom_progress_def cleanup_def Let_def
          split: if_splits option.splits)
qed

theorem failed_attempt_removes_final_file_witness:
  "[''show/01.mp4'' \<mapsto> ''complete''] ''show/01.mp4'' = Some ''complete'' \<and>
   fst (download_with_custom_progress (flaky_transport 1) ''http://h/v/index.m3u8''
          ''show/01.mp4'' ''01.mp4'' ''http://page'' [''show/01.mp4'' \<mapsto> ''complete'']) =
     Inl (SegmentFetchFailed 1) \<and>
   snd (download_with_custom_progress (flaky_transport 1) ''http://h/v/index.m3u8''
          ''show/01.mp4'' ''01.mp4'' ''http://page'' [''show/01.mp4'' \<mapsto> ''complete''])
     ''show/01.mp4'' = None"
proof -
  let ?r = "download_with_custom_progress (flaky_transport 1) ''http://h/v/index.m3u8''
          ''show/01.mp4'' ''01.mp4'' ''http://page'' [''show/01.mp4'' \<mapsto> ''complete'']"
  have b: "fst ?r = Inl (SegmentFetchFailed 1)" by code_simp
  then have p: "?r = (Inl (SegmentFetchFailed 1), snd ?r)" by (metis prod.collapse)
  have o: "[''show/01.mp4'' \<mapsto> ''complete''] ''show/01.mp4'' = Some ''complete''" by simp
  from failed_attempt_removes_final_file [OF p] have "snd ?r ''show/01.mp4'' = None"
    by (rule conjunct1)
  with o b show ?thesis by (intro conjI)
qed

section \<open>Facts about the retry loop\<close>























section \<open>Facts about brute-force enumeration\<close>

declare show_nat.simps [simp del]



















section \<open>Facts about the wrapper unwrapper\<close>


lemma update_nonempty: "AList.update k v al \<noteq> []"
  by (cases al) auto









section \<open>Facts about legacy-catalog resolution\<close>
































text \<open>
  Episode 3 has a single wrapper link, in slot 5, and the wrapper page cannot be
  fetched: the unwrapper's fallback puts the wrapper URL itself into position 5.
\<close>

lemma get_video_urls_fallback_slot:
  "get_video_urls example_site 3 =
     ([None, None, None, None, Some ''https://hyperwatching.com/iframe/abc123?x=1''], True)"
  by code_simp

section \<open>Facts about the server names of a resolved episode\<close>




section \<open>Facts about the order of download attempts\<close>

lemma pref_order_fold_absent:
  "k \<notin> set (map py_lower preferred) \<Longrightarrow>
   fold (\<lambda>(i, s) m. m(py_lower s \<mapsto> i)) (enumerate n preferred) m k = m k"
  by (induction preferred arbitrary: n m) auto

lemma pref_order_absent:
  "k \<notin> set (map py_lower preferred) \<Longrightarrow> pref_order preferred k = None"
  unfolding pref_order_def using pref_order_fold_absent [of k preferred 0 Map.empty] by simp

lemma pref_order_last:
  "pref_order (preferred @ [s]) (py_lower s) = Some (length preferred)"
  unfolding pref_order_def by (simp add: enumerate_append_eq)

lemma show_nat_digits: "set (show_nat n) \<subseteq> set ''0123456789''"
proof (induction n rule: show_nat.induct)
  case (1 n)
  have d: "digit_char k \<in> set ''0123456789''" if "k < 10" for k
  proof -
    from that have "k < length ''0123456789''" by simp
    then have "''0123456789'' ! k \<in> set ''0123456789''" by (rule nth_mem)
    then show ?thesis by (simp only: digit_char_def)
  qed
  show ?case
  proof (cases "n < 10")
    case True
    then have "show_nat n = [digit_char n]" by (simp add: show_nat.simps)
    with d [OF True] show ?thesis by simp
  next
    case False
    then have e: "show_nat n = show_nat (n div 10) @ [digit_char (n mod 10)]"
      by (subst show_nat.simps) simp
    have "n mod 10 < 10" by simp
    from d [OF this] "1.IH" [OF False] show ?thesis by (simp only: e set_append) auto
  qed
qed

lemma lower_char_digit: "\<forall>c\<in>set ''0123456789''. lower_char c = c"
  by code_simp

lemma py_lower_show_nat: "py_lower (show_nat n) = show_nat n"
proof -
  have "\<forall>c\<in>set (show_nat n). lower_char c = c"
    using show_nat_digits [of n] lower_char_digit by blast
  then show ?thesis unfolding py_lower_def by (simp add: map_idI)
qed

lemma show_nat_nonempty: "show_nat n \<noteq> []"
  by (subst show_nat.simps) simp

lemma show_nat_not_vudeo: "show_nat n \<noteq> ''vudeo''"
proof
  assume "show_nat n = ''vudeo''"
  then have "CHR ''v'' \<in> set (show_nat n)" by simp
  with show_nat_digits [of n] have "CHR ''v'' \<in> set ''0123456789''" by blast
  then show False by simp
qed

lemma numbered_not_vudeo: "''vudeo'' \<notin> set (map py_lower (map show_nat ns))"
proof
  assume a: "''vudeo'' \<in> set (map py_lower (map show_nat ns))"
  have "set (map py_lower (map show_nat ns)) = show_nat ` set ns"
    by (simp add: py_lower_show_nat image_image)
  with a have "''vudeo'' \<in> show_nat ` set ns" by (simp only:)
  then obtain n where "''vudeo'' = show_nat n" by (rule imageE)
  with show_nat_not_vudeo [of n] show False by (simp only:) simp
qed

lemma vudeo_not_preferred: "py_lower ''vudeo'' \<notin> set (map py_lower long_preference)"
proof -
  have l: "py_lower ''vudeo'' = ''vudeo''" "map py_lower [''vk''] = [''vk'']" by code_simp+
  have "set (map py_lower long_preference) =
      set (map py_lower (map show_nat [0..<1000])) \<union> set (map py_lower [''vk''])"
    unfolding long_preference_def by (simp only: map_append set_append)
  moreover have "''vudeo'' \<notin> set [''vk'']" by simp
  ultimately show ?thesis using numbered_not_vudeo [of "[0..<1000]"] by (simp only: l Un_iff) simp
qed

lemma pref_key_vudeo: "pref_key long_preference (''vudeo'', u) = 999"
  unfolding pref_key_def using pref_order_absent [OF vudeo_not_preferred] by simp

lemma pref_key_vk: "pref_key long_preference (''vk'', u) = 1000"
proof -
  have l: "py_lower ''vk'' = ''vk''" by code_simp
  from pref_order_last [of "map show_nat [0..<1000]" "''vk''"]
  have "pref_order long_preference ''vk'' = Some 1000"
    unfolding long_preference_def by (simp add: l)
  then show ?thesis unfolding pref_key_def by (simp add: l)
qed

lemma long_preference_nonempty: "long_preference \<noteq> []"
  unfolding long_preference_def by simp

lemma valid_urls_long_preference:
  "valid_urls two_servers (Some long_preference) None =
     [(''vudeo'', ''https://vudeo.example/embed-1.html''),
      (''vk'', ''https://vk.example/video9'')]"
proof -
  have t: "apply_skip None (truthy_urls two_servers) =
      [(''vk'', ''https://vk.example/video9''),
       (''vudeo'', ''https://vudeo.example/embed-1.html'')]"
    by code_simp
  have s: "sort_key (pref_key long_preference)
        [(''vk'', ''https://vk.example/video9''),
         (''vudeo'', ''https://vudeo.example/embed-1.html'')] =
      [(''vudeo'', ''https://vudeo.example/embed-1.html''),
       (''vk'', ''https://vk.example/video9'')]"
    by (simp only: sort_key_simps insort_key.simps pref_key_vudeo pref_key_vk) simp
  have "apply_preference (Some long_preference)
        [(''vk'', ''https://vk.example/video9''),
         (''vudeo'', ''https://vudeo.example/embed-1.html'')] =
      sort_key (pref_key long_preference)
        [(''vk'', ''https://vk.example/video9''),
         (''vudeo'', ''https://vudeo.example/embed-1.html'')]"
    unfolding apply_preference_def using long_preference_nonempty by (simp only: option.case if_False)
  then show ?thesis
    unfolding valid_urls_def t by (simp only: s)
qed

lemma digit_char_inj:
  assumes "a < 10" "b < 10" "digit_char a = digit_char b"
  shows "a = b"
proof -
  have d: "distinct ''0123456789''" by simp
  have l: "length ''0123456789'' = 10" by simp
  from assms(1,2) l have "a < length ''0123456789''" "b < length ''0123456789''"
    by (simp_all only:)
  from nth_eq_iff_index_eq [OF d this] assms(3) show ?thesis
    by (simp only: digit_char_def)
qed

lemma show_nat_small: "n < 10 \<Longrightarrow> show_nat n = [digit_char n]"
  by (subst show_nat.simps) simp

lemma show_nat_large:
  "\<not> n < 10 \<Longrightarrow> show_nat n = show_nat (n div 10) @ [digit_char (n mod 10)]"
  by (subst show_nat.simps) simp

lemma show_nat_inj: "show_nat n = show_nat m \<Longrightarrow> n = m"
proof (induction n arbitrary: m rule: show_nat.induct)
  case (1 n)
  show ?case
  proof (cases "n < 10")
    case n: True
    show ?thesis
    proof (cases "m < 10")
      case True
      with n "1.prems" have "digit_char n = digit_char m" by (simp add: show_nat_small)
      from digit_char_inj [OF n True this] show ?thesis .
    next
      case False
      with n "1.prems" have "[digit_char n] = show_nat (m div 10) @ [digit_char (m mod 10)]"
        by (simp add: show_nat_small show_nat_large)
      then have "show_nat (m div 10) = []" by (simp add: Cons_eq_append_conv)
      with show_nat_nonempty show ?thesis by blast
    qed
  next
    case n: False
    show ?thesis
    proof (cases "m < 10")
      case True
      with n "1.prems" have "show_nat (n div 10) @ [digit_char (n mod 10)] = [digit_char m]"
        by (simp add: show_nat_small show_nat_large)
      then have "show_nat (n div 10) = []" by (simp add: append_eq_Cons_conv)
      with show_nat_nonempty show ?thesis by blast
    next
      case False
      with n "1.prems" have "show_nat (n div 10) @ [digit_char (n mod 10)] =
          show_nat (m div 10) @ [digit_char (m mod 10)]"
        by (simp add: show_nat_large)
      then have e: "show_nat (n div 10) = show_nat (m div 10)"
        and d: "digit_char (n mod 10) = digit_char (m mod 10)"
        by simp_all
      from "1.IH" [OF n e] have q: "n div 10 = m div 10" .
      have "n mod 10 < 10" "m mod 10 < 10" by simp_all
      from digit_char_inj [OF this d] have r: "n mod 10 = m mod 10" .
      have "n = 10 * (n div 10) + n mod 10" by simp
      also have "\<dots> = 10 * (m div 10) + m mod 10" by (simp only: q r)
      also have "\<dots> = m" by simp
      finally show ?thesis .
    qed
  qed
qed

lemma show_nat_not_vk: "show_nat n \<noteq> ''vk''"
proof
  assume "show_nat n = ''vk''"
  then have "CHR ''v'' \<in> set (show_nat n)" by simp
  with show_nat_digits [of n] have "CHR ''v'' \<in> set ''0123456789''" by blast
  then show False by simp
qed

lemma distinct_long_preference: "distinct long_preference"
proof -
  have "inj_on show_nat (set [0..<1000])"
    by (rule inj_onI) (rule show_nat_inj)
  moreover have "distinct [0..<1000::nat]" by (rule distinct_upt)
  ultimately have d: "distinct (map show_nat [0..<1000])"
    by (simp only: distinct_map)
  have "''vk'' \<notin> set (map show_nat [0..<1000])"
  proof
    assume "''vk'' \<in> set (map show_nat [0..<1000])"
    then have "''vk'' \<in> show_nat ` set [0..<1000]" by (simp only: set_map)
    then obtain n where "''vk'' = show_nat n" by (rule imageE)
    with show_nat_not_vk [of n] show False by (simp only:) simp
  qed
  with d show ?thesis unfolding long_preference_def
    by (simp only: distinct_append) simp
qed

lemma vudeo_not_in_long_preference: "''vudeo'' \<notin> set long_preference"
proof
  assume "''vudeo'' \<in> set long_preference"
  then have "''vudeo'' \<in> set (map show_nat [0..<1000]) \<or> ''vudeo'' \<in> set [''vk'']"
    unfolding long_preference_def by (simp only: set_append Un_iff)
  then show False
  proof
    assume "''vudeo'' \<in> set (map show_nat [0..<1000])"
    then have "''vudeo'' \<in> show_nat ` set [0..<1000]" by (simp only: set_map)
    then obtain n where "''vudeo'' = show_nat n" by (rule imageE)
    with show_nat_not_vudeo [of n] show False by (simp only:) simp
  next
    assume "''vudeo'' \<in> set [''vk'']"
    then show False by simp
  qed
qed

lemma vk_in_long_preference: "''vk'' \<in> set long_preference"
  unfolding long_preference_def by (simp only: set_append Un_iff) simp

lemma length_long_preference: "length long_preference = 1001"
  unfolding long_preference_def by (simp only: length_append length_map length_upt) simp

lemma download_long_preference:
  "download_episode no_server_works two_servers (Some long_preference) None =
     Some (False, [''vudeo'', ''vk''])"
  unfolding download_episode_def valid_urls_long_preference
  by (simp add: no_server_works_def)

lemma no_numbered_server:
  "\<forall>x\<in>set valid. \<forall>n. py_lower (fst x) \<noteq> show_nat n \<Longrightarrow>
   concat (map (\<lambda>p. filter (\<lambda>x. py_lower (fst x) = py_lower p) valid) (map show_nat ns)) = []"
proof (induction ns)
  case Nil
  show ?case by simp
next
  case (Cons n ns)
  from Cons.prems have "filter (\<lambda>x. py_lower (fst x) = show_nat n) valid = []"
    by (simp add: filter_empty_conv)
  with Cons.IH [OF Cons.prems] show ?case by (simp add: py_lower_show_nat)
qed

lemma preferred_first_long_preference:
  "preferred_first long_preference (truthy_urls two_servers) =
     [(''vk'', ''https://vk.example/video9''),
      (''vudeo'', ''https://vudeo.example/embed-1.html'')]"
proof -
  let ?valid = "[(''vk'', ''https://vk.example/video9''),
                 (''vudeo'', ''https://vudeo.example/embed-1.html'')]"
  have t: "truthy_urls two_servers = ?valid" by code_simp
  have l: "py_lower ''vudeo'' = ''vudeo''" "py_lower ''vk'' = ''vk''" by code_simp+
  have "\<forall>x\<in>set ?valid. \<forall>n. py_lower (fst x) \<noteq> show_nat n"
    using show_nat_not_vk show_nat_not_vudeo by (simp add: l) metis
  from no_numbered_server [OF this, of "[0..<1000]"]
  have a: "concat (map (\<lambda>p. filter (\<lambda>x. py_lower (fst x) = py_lower p) ?valid)
      (map show_nat [0..<1000])) = []" .
  have b: "filter (\<lambda>x. py_lower (fst x) = py_lower ''vk'') ?valid =
      [(''vk'', ''https://vk.example/video9'')]"
    by (simp only: filter.simps fst_conv l) simp
  have "py_lower ''vk'' \<in> set (map py_lower long_preference)"
    using vk_in_long_preference by (simp only: set_map) (rule imageI)
  with vudeo_not_preferred
  have c: "filter (\<lambda>x. py_lower (fst x) \<notin> set (map py_lower long_preference)) ?valid =
      [(''vudeo'', ''https://vudeo.example/embed-1.html'')]"
    by (simp only: filter.simps fst_conv) simp
  have "concat (map (\<lambda>p. filter (\<lambda>x. py_lower (fst x) = py_lower p) ?valid) long_preference) =
      [(''vk'', ''https://vk.example/video9'')]"
    unfolding long_preference_def by (simp only: map_append concat_append a) (simp add: l)
  with c show ?thesis unfolding preferred_first_def t by (simp only:) simp
qed

text \<open>
  C9. With the preferred list \<open>0, 1, \<dots>, 999, vk\<close> and an episode whose servers are \<open>vk\<close>
  and \<open>vudeo\<close>, discovered in that order, the preferred server \<open>vk\<close> is tried after the
  server \<open>vudeo\<close>, which the list does not name: \<open>vk\<close> sorts with its index 1000,
  \<open>vudeo\<close> with the default key 999. The order the claim describes is \<open>vk\<close>, then
  \<open>vudeo\<close>.
\<close>

theorem download_episode_long_preference:
  "length long_preference = 1001 \<and> distinct long_preference \<and>
   ''vk'' \<in> set long_preference \<and> ''vudeo'' \<notin> set long_preference \<and>
   download_episode no_server_works two_servers (Some long_preference) None =
     Some (False, [''vudeo'', ''vk'']) \<and>
   preferred_first long_preference (truthy_urls two_servers) =
     [(''vk'', ''https://vk.example/video9''),
      (''vudeo'', ''https://vudeo.example/embed-1.html'')]"
  by (intro conjI) (fact length_long_preference, fact distinct_long_preference,
    fact vk_in_long_preference, fact vudeo_not_in_long_preference,
    fact download_long_preference, fact preferred_first_long_preference)

end
